theory Spec2Isabelle
  imports Main
begin

section \<open>Python strings and lists\<close>

text \<open>
  A Python \<open>str\<close> is modelled as a \<^typ>\<open>string\<close>: one \<^typ>\<open>char\<close> per character, so
  \<open>length\<close> is Python's \<open>len\<close> (characters are the code points below 256).
\<close>

definition startswith :: "string \<Rightarrow> string \<Rightarrow> bool" where
  \<comment> \<open>\<open>s.startswith(p)\<close>\<close>
  "startswith s p = (take (length p) s = p)"

fun contains :: "string \<Rightarrow> string \<Rightarrow> bool" where
  \<comment> \<open>\<open>sub in s\<close>\<close>
  "contains sub [] = (sub = [])"
| "contains sub (c # cs) = (startswith (c # cs) sub \<or> contains sub cs)"

definition isspace :: "char \<Rightarrow> bool" where
  \<comment> \<open>the characters \<open>str.strip()\<close> removes: tab, LF, VT, FF, CR, FS, GS, RS, US, space, NEL, NBSP\<close>
  "isspace c = (c \<in> {CHR 0x09, CHR 0x0A, CHR 0x0B, CHR 0x0C, CHR 0x0D, CHR 0x1C, CHR 0x1D,
     CHR 0x1E, CHR 0x1F, CHR 0x20, CHR 0x85, CHR 0xA0})"

definition strip :: "string \<Rightarrow> string" where
  \<comment> \<open>\<open>s.strip()\<close>\<close>
  "strip s = rev (dropWhile isspace (rev (dropWhile isspace s)))"

definition lower_char :: "char \<Rightarrow> char" where
  "lower_char c =
     (let n = (of_char c :: nat)
      in if (65 \<le> n \<and> n \<le> 90) \<or> (192 \<le> n \<and> n \<le> 222 \<and> n \<noteq> 215)
         then char_of (n + 32) else c)"

definition lower :: "string \<Rightarrow> string" where
  \<comment> \<open>\<open>s.lower()\<close>\<close>
  "lower s = map lower_char s"

fun join :: "string \<Rightarrow> string list \<Rightarrow> string" where
  \<comment> \<open>\<open>sep.join(xs)\<close>\<close>
  "join sep [] = []"
| "join sep [x] = x"
| "join sep (x # y # ys) = x @ sep @ join sep (y # ys)"

fun split :: "char \<Rightarrow> string \<Rightarrow> string list" where
  \<comment> \<open>\<open>s.split(c)\<close> for a one-character separator: \<open>''.split(c) == ['']\<close>\<close>
  "split c [] = [[]]"
| "split c (x # xs) =
     (if x = c then [] # split c xs
      else (case split c xs of [] \<Rightarrow> [[x]] | w # ws \<Rightarrow> (x # w) # ws))"

definition slice_to :: "int \<Rightarrow> 'a list \<Rightarrow> 'a list" where
  \<comment> \<open>\<open>xs[:k]\<close>: a negative \<open>k\<close> counts from the end\<close>
  "slice_to k xs =
     (if 0 \<le> k then take (nat k) xs else take (length xs - nat (- k)) xs)"

definition enumerate_list :: "'a list \<Rightarrow> (nat \<times> 'a) list" where
  \<comment> \<open>\<open>enumerate(xs)\<close>\<close>
  "enumerate_list xs = zip [0..<length xs] xs"

definition digit_char :: "nat \<Rightarrow> char" where
  "digit_char d = char_of (48 + d)"

fun str_nat :: "nat \<Rightarrow> string" where
  "str_nat n = (if n < 10 then [digit_char n] else str_nat (n div 10) @ [digit_char (n mod 10)])"

definition str_int :: "int \<Rightarrow> string" where
  \<comment> \<open>how an f-string renders an \<open>int\<close>\<close>
  "str_int i = (if i < 0 then CHR ''-'' # str_nat (nat (- i)) else str_nat (nat i))"

section \<open>The parsed document\<close>

text \<open>
  \<open>BeautifulSoup(html_content, 'html.parser')\<close> is the HTML-parsing capability the program
  consumes; the parser itself is a parameter \<open>parse\<close> of the functions below. What it returns
  is modelled as the tree the program walks: a string node, or a tag with its name, its
  multi-valued \<open>class\<close> attribute (\<open>None\<close> when the tag has none), its other attributes and
  its children. A document is the list of its top-level nodes.
\<close>

datatype node =
    Text string
  | Element string "string list option" "(string \<times> string) list" "node list"

type_synonym soup = "node list"

fun descendants :: "node \<Rightarrow> node list" where
  \<comment> \<open>\<open>tag.descendants\<close>: every node below the tag, in document order\<close>
  "descendants (Text s) = []"
| "descendants (Element n c a ks) = concat (map (\<lambda>k. k # descendants k) ks)"

definition soup_descendants :: "soup \<Rightarrow> node list" where
  "soup_descendants ns = concat (map (\<lambda>k. k # descendants k) ns)"

definition find_all :: "(node \<Rightarrow> bool) \<Rightarrow> soup \<Rightarrow> node list" where
  \<comment> \<open>\<open>soup.find_all(...)\<close>: the matching tags among the descendants, in document order\<close>
  "find_all P ns = filter P (soup_descendants ns)"

fun named :: "string list \<Rightarrow> node \<Rightarrow> bool" where
  \<comment> \<open>a tag whose name is one of \<open>names\<close>\<close>
  "named names (Text s) = False"
| "named names (Element n c a ks) = (n \<in> set names)"

fun has_href :: "node \<Rightarrow> bool" where
  \<comment> \<open>\<open>find_all('a', href=True)\<close>: an anchor that has an href attribute\<close>
  "has_href (Text s) = False"
| "has_href (Element n c a ks) = (n = ''a'' \<and> map_of a ''href'' \<noteq> None)"

fun href_of :: "node \<Rightarrow> string" where
  \<comment> \<open>\<open>link['href']\<close>, read only on tags that \<open>has_href\<close> selected\<close>
  "href_of (Text s) = []"
| "href_of (Element n c a ks) = (case map_of a ''href'' of None \<Rightarrow> [] | Some h \<Rightarrow> h)"

definition class_pred :: "string \<Rightarrow> bool" where
  \<comment> \<open>\<open>lambda c: c and ('content' in c.lower() or 'article' in c.lower())\<close> on a string\<close>
  "class_pred c = (c \<noteq> [] \<and> (contains ''content'' (lower c) \<or> contains ''article'' (lower c)))"

fun is_main :: "node \<Rightarrow> bool" where
  \<comment> \<open>\<open>find_all(['article', 'main', 'div'], class_=...)\<close>: the function is tried on each class
      value and then on the values joined by a space; a tag without a class gives it \<open>None\<close>\<close>
  "is_main (Text s) = False"
| "is_main (Element n c a ks) =
     (n \<in> set [''article'', ''main'', ''div''] \<and>
      (case c of None \<Rightarrow> False
       | Some cs \<Rightarrow> list_ex class_pred cs \<or> class_pred (join '' '' cs)))"

fun prune :: "string list \<Rightarrow> node \<Rightarrow> node" where
  \<comment> \<open>the tag after every descendant named in \<open>names\<close> has been extracted from the tree\<close>
  "prune names (Text s) = Text s"
| "prune names (Element n c a ks) =
     Element n c a (map (prune names) (filter (\<lambda>k. \<not> named names k) ks))"

definition remove_scripts :: "soup \<Rightarrow> soup" where
  \<comment> \<open>\<open>for script in soup(["script", "style"]): script.extract()\<close>\<close>
  "remove_scripts ns =
     map (prune [''script'', ''style'']) (filter (\<lambda>k. \<not> named [''script'', ''style''] k) ns)"

fun strings_of :: "node \<Rightarrow> string list" where
  \<comment> \<open>the strings of a node and of everything below it, in document order\<close>
  "strings_of (Text s) = [s]"
| "strings_of (Element n c a ks) = concat (map strings_of ks)"

definition get_text :: "string \<Rightarrow> soup \<Rightarrow> string" where
  \<comment> \<open>\<open>get_text(separator=sep, strip=True)\<close>: every string stripped, the empty ones dropped\<close>
  "get_text sep ns =
     join sep (filter (\<lambda>s. s \<noteq> []) (map strip (concat (map strings_of ns))))"

definition tag_text :: "string \<Rightarrow> node \<Rightarrow> string" where
  \<comment> \<open>\<open>get_text\<close> of one tag\<close>
  "tag_text sep nd = get_text sep [nd]"

section \<open>The collaborators\<close>

text \<open>
  The search provider's reply, restricted to what the program reads: the keys \<open>error\<close> and
  \<open>organic\<close> of the JSON object, and of each organic result the keys \<open>title\<close>, \<open>link\<close>
  and \<open>snippet\<close> (\<open>None\<close>: the key is absent).
\<close>

record result =
  title :: "string option"
  link :: "string option"
  snippet :: "string option"

record search_results =
  error :: "string option"
  organic :: "result list option"

definition dict_get :: "string option \<Rightarrow> string \<Rightarrow> string" where
  \<comment> \<open>\<open>result.get(key, default)\<close>\<close>
  "dict_get v d = (case v of None \<Rightarrow> d | Some x \<Rightarrow> x)"

text \<open>
  The HTTP client is a parameter: the provider answers a query and a count with a JSON
  object (\<open>Inr\<close>) or the request raises (\<open>Inl\<close>, the exception's text); a GET answers a URL
  with the response text (\<open>Inr\<close>) or raises (\<open>Inl\<close>).
\<close>

type_synonym provider = "string \<Rightarrow> int \<Rightarrow> string + search_results"
type_synonym client = "string \<Rightarrow> string + string"

definition make_search_request :: "provider \<Rightarrow> string \<Rightarrow> int \<Rightarrow> search_results" where
  "make_search_request p query num_results =
     (case p query num_results of
        Inr js \<Rightarrow> js
      | Inl e \<Rightarrow> \<lparr>error = Some e, organic = None\<rparr>)"

definition fetch_webpage_content :: "client \<Rightarrow> string \<Rightarrow> string" where
  "fetch_webpage_content get url =
     (case get url of
        Inr text \<Rightarrow> text
      | Inl e \<Rightarrow> ''Error fetching page: '' @ e)"

section \<open>web_search\<close>

definition format_search_result :: "result \<Rightarrow> string" where
  "format_search_result r =
     ''\<newline>Title: '' @ dict_get (title r) ''No title'' @
     ''\<newline>URL: '' @ dict_get (link r) ''No link'' @
     ''\<newline>Snippet: '' @ dict_get (snippet r) ''No description available'' @ ''\<newline>''"

definition no_organic :: "search_results \<Rightarrow> bool" where
  \<comment> \<open>\<open>"organic" not in search_results or not search_results["organic"]\<close>\<close>
  "no_organic sr = (case organic sr of None \<Rightarrow> True | Some rs \<Rightarrow> rs = [])"

definition organic_list :: "search_results \<Rightarrow> result list" where
  \<comment> \<open>\<open>search_results["organic"]\<close>, read only after \<open>no_organic\<close> was false\<close>
  "organic_list sr = (case organic sr of None \<Rightarrow> [] | Some rs \<Rightarrow> rs)"

definition web_search :: "provider \<Rightarrow> string \<Rightarrow> int \<Rightarrow> string" where
  "web_search p query num_results =
     (let sr = make_search_request p query num_results
      in case error sr of
           Some e \<Rightarrow> ''Error performing search: '' @ e
         | None \<Rightarrow>
             if no_organic sr then ''No results found for your query.''
             else join ''\<newline>---\<newline>''
                    (map format_search_result (slice_to num_results (organic_list sr))))"

section \<open>fetch_and_parse_webpage\<close>

definition truncated :: "string \<Rightarrow> string" where
  \<comment> \<open>\<open>text[:10000] + "..." if len(text) > 10000 else text\<close>\<close>
  "truncated text = (if length text > 10000 then take 10000 text @ ''...'' else text)"

definition heading_line :: "string \<Rightarrow> node \<Rightarrow> string" where
  \<comment> \<open>\<open>f"{tag.upper()}: {heading.get_text(strip=True)}"\<close>, the tag already in upper case\<close>
  "heading_line up h = up @ '': '' @ tag_text [] h"

definition heading_tags :: "(string \<times> string) list" where
  \<comment> \<open>\<open>['h1', 'h2', 'h3']\<close>, each with its \<open>tag.upper()\<close>\<close>
  "heading_tags = [(''h1'', ''H1''), (''h2'', ''H2''), (''h3'', ''H3'')]"

definition headings_of :: "soup \<Rightarrow> string list" where
  \<comment> \<open>the two nested loops that append to \<open>headings\<close>\<close>
  "headings_of sp =
     foldl (\<lambda>acc (tag, up).
              foldl (\<lambda>acc h. acc @ [heading_line up h]) acc (find_all (named [tag]) sp))
       [] heading_tags"

definition link_line :: "node \<Rightarrow> string" where
  \<comment> \<open>\<open>text = link.get_text(strip=True) or "[No text]"\<close>, then \<open>f"{text}: {href}"\<close>\<close>
  "link_line l =
     (let text = (if tag_text [] l = [] then ''[No text]'' else tag_text [] l)
      in text @ '': '' @ href_of l)"

definition links_of :: "soup \<Rightarrow> string list" where
  \<comment> \<open>the loop that appends to \<open>links\<close>\<close>
  "links_of sp = foldl (\<lambda>acc l. acc @ [link_line l]) [] (find_all has_href sp)"

definition invalid_message :: "string \<Rightarrow> string" where
  "invalid_message extraction_type =
     ''Invalid extraction_type: '' @ extraction_type @
     ''. Valid options are 'full_text', 'main_content', 'headings', or 'links'.''"

definition extraction :: "soup \<Rightarrow> string \<Rightarrow> string" where
  \<comment> \<open>lines 89 to 120: what \<open>fetch_and_parse_webpage\<close> does with the parsed markup\<close>
  "extraction parsed extraction_type =
     (let sp = remove_scripts parsed
      in if extraction_type = ''full_text'' then truncated (get_text ''\<newline>'' sp)
         else if extraction_type = ''main_content'' then
           (let main_elements = find_all is_main sp
            in if main_elements \<noteq> []
               then truncated (join ''\<newline>\<newline>'' (map (tag_text ''\<newline>'') main_elements))
               else ''Couldn'' @ [CHR 0x27] @
                    ''t identify main content. Try using full_text extraction instead.'')
         else if extraction_type = ''headings'' then
           (let headings = headings_of sp
            in if headings \<noteq> [] then join ''\<newline>'' headings
               else ''No headings found on the page.'')
         else if extraction_type = ''links'' then
           (let links = links_of sp
            in if links \<noteq> [] then join ''\<newline>'' (take 100 links)
               else ''No links found on the page.'')
         else invalid_message extraction_type)"

definition fetch_and_parse_webpage ::
  "client \<Rightarrow> (string \<Rightarrow> soup) \<Rightarrow> string \<Rightarrow> string \<Rightarrow> string" where
  "fetch_and_parse_webpage get parse url extraction_type =
     (let html_content = fetch_webpage_content get url
      in if startswith html_content ''Error'' then html_content
         else extraction (parse html_content) extraction_type)"

section \<open>deep_research\<close>

definition overview_entry :: "nat \<times> result \<Rightarrow> string list" where
  \<comment> \<open>the three lines one pass of the overview loop appends\<close>
  "overview_entry ir =
     (case ir of (i, r) \<Rightarrow>
        [str_int (int i + 1) @ ''. **'' @ dict_get (title r) ''No title'' @ ''**'',
         ''   URL: '' @ dict_get (link r) ''No link'',
         ''   Summary: '' @ dict_get (snippet r) ''No description'' @ ''\<newline>''])"

fun overview_loop :: "string list \<Rightarrow> (nat \<times> result) list \<Rightarrow> string list" where
  "overview_loop research_report [] = research_report"
| "overview_loop research_report (ir # rest) =
     overview_loop (research_report @ overview_entry ir) rest"

definition key_points :: "soup \<Rightarrow> string list" where
  \<comment> \<open>the heading loops of the deep dive: only texts longer than 3 characters are kept\<close>
  "key_points sp =
     foldl (\<lambda>acc (tag, up).
              foldl (\<lambda>acc h.
                       (let heading_text = tag_text [] h
                        in if heading_text \<noteq> [] \<and> length heading_text > 3
                           then acc @ [''- '' @ heading_text] else acc))
                acc (find_all (named [tag]) sp))
       [] heading_tags"

definition content_summary :: "soup \<Rightarrow> string" where
  "content_summary sp =
     (case find_all is_main sp of
        m # ms \<Rightarrow>
          (let main_text = tag_text '' '' m;
               paragraphs = split CHR 0x0A main_text
           in take 500 (join '' '' (take 3 paragraphs)) @ ''...'')
      | [] \<Rightarrow>
          (let page_text = get_text '' '' sp
           in take 500 page_text @ ''...''))"

definition source_lines ::
  "(nat \<Rightarrow> client) \<Rightarrow> (string \<Rightarrow> soup) \<Rightarrow> nat \<times> result \<Rightarrow> string list" where
  \<comment> \<open>the lines one pass of the deep-dive loop appends; \<open>gets i\<close> answers the GET of pass \<open>i\<close>\<close>
  "source_lines gets parse ir =
     (case ir of (i, r) \<Rightarrow>
        (let title = dict_get (title r) ''No title'';
             url = dict_get (link r) ''No link'';
             head = [''### Source '' @ str_int (int i + 1) @ '': '' @ title,
                     ''URL: '' @ url @ ''\<newline>''];
             html_content = fetch_webpage_content (gets i) url
         in if startswith html_content ''Error''
            then head @ [''Could not access this page: '' @ html_content @ ''\<newline>'']
            else
              (let sp = remove_scripts (parse html_content);
                   headings = key_points sp
               in head @ [''#### Key Points:\<newline>''] @
                  (if headings \<noteq> [] then take 10 headings @ [[]]
                   else [''- No clear headings found on this page.'', []]) @
                  [''#### Summary of Content:\<newline>''] @
                  [content_summary sp] @
                  [''\<newline>---\<newline>''])))"

fun detail_loop ::
  "(nat \<Rightarrow> client) \<Rightarrow> (string \<Rightarrow> soup) \<Rightarrow> string list \<Rightarrow> (nat \<times> result) list \<Rightarrow> string list" where
  "detail_loop gets parse research_report [] = research_report"
| "detail_loop gets parse research_report (ir # rest) =
     detail_loop gets parse (research_report @ source_lines gets parse ir) rest"

definition footer :: "string \<Rightarrow> int \<Rightarrow> string" where
  "footer topic depth =
     ''This research explored '' @ str_int depth @ '' sources on the topic '' @ [CHR 0x27] @
     topic @ [CHR 0x27] @
     ''. To further explore this topic, consider reading the full content of the most relevant sources or refining your search terms.''"

definition research_report ::
  "(nat \<Rightarrow> client) \<Rightarrow> (string \<Rightarrow> soup) \<Rightarrow> string \<Rightarrow> int \<Rightarrow> result list \<Rightarrow> string list" where
  \<comment> \<open>the list \<open>research_report\<close> when \<open>deep_research\<close> returns, lines 136 to 190\<close>
  "research_report gets parse topic depth results =
     (let r0 = [''# Deep Research: '' @ topic @ ''\<newline>''];
          r1 = r0 @ [''## Search Results Overview\<newline>''];
          r2 = overview_loop r1 (enumerate_list (slice_to (depth + 2) results));
          r3 = r2 @ [''## Detailed Content Analysis\<newline>''];
          r4 = detail_loop gets parse r3 (enumerate_list (slice_to depth results));
          r5 = r4 @ [''## Research Summary''];
          r6 = r5 @ [footer topic depth]
      in r6)"

definition deep_research ::
  "provider \<Rightarrow> (nat \<Rightarrow> client) \<Rightarrow> (string \<Rightarrow> soup) \<Rightarrow> string \<Rightarrow> int \<Rightarrow> string" where
  "deep_research p gets parse topic depth =
     (let sr = make_search_request p topic (depth + 2)
      in case error sr of
           Some e \<Rightarrow> ''Error performing search: '' @ e
         | None \<Rightarrow>
             if no_organic sr then ''No results found for your topic.''
             else join ''\<newline>'' (research_report gets parse topic depth (organic_list sr)))"

section \<open>Notions the properties are stated with\<close>

definition valid_modes :: "string list" where
  \<comment> \<open>the four extraction types the if/elif chain of \<open>fetch_and_parse_webpage\<close> tests for\<close>
  "valid_modes = [''full_text'', ''main_content'', ''headings'', ''links'']"

fun strings_outside :: "string list \<Rightarrow> node \<Rightarrow> string list" where
  \<comment> \<open>the specification's reading of visible text: the strings of the document that are
      not inside a tag named in \<open>names\<close>, in document order\<close>
  "strings_outside names (Text s) = [s]"
| "strings_outside names (Element n c a ks) =
     (if n \<in> set names then [] else concat (map (strings_outside names) ks))"

section \<open>Loops as maps\<close>

lemma foldl_snoc_map: "foldl (\<lambda>acc x. acc @ [f x]) acc xs = acc @ map f xs"
  by (induction xs arbitrary: acc) simp_all

lemma headings_of_eq:
  "headings_of sp =
     map (heading_line ''H1'') (find_all (named [''h1'']) sp) @
     map (heading_line ''H2'') (find_all (named [''h2'']) sp) @
     map (heading_line ''H3'') (find_all (named [''h3'']) sp)"
  by (simp add: headings_of_def heading_tags_def foldl_snoc_map)

lemma links_of_eq: "links_of sp = map link_line (find_all has_href sp)"
  by (simp add: links_of_def foldl_snoc_map)

lemma overview_loop_eq: "overview_loop rep xs = rep @ concat (map overview_entry xs)"
  by (induction xs arbitrary: rep) simp_all

lemma detail_loop_eq:
  "detail_loop gets parse rep xs = rep @ concat (map (source_lines gets parse) xs)"
  by (induction xs arbitrary: rep) simp_all

lemma slice_to_nonneg: "0 \<le> k \<Longrightarrow> slice_to k xs = take (nat k) xs"
  by (simp add: slice_to_def)

lemma length_truncated: "length (truncated t) \<le> 10003"
  by (simp add: truncated_def)

lemma strings_of_prune:
  "\<not> named names nd \<Longrightarrow> strings_of (prune names nd) = strings_outside names nd"
proof (induction nd)
  case (Text s)
  show ?case by simp
next
  case (Element n c a ks)
  have "concat (map (strings_of \<circ> prune names) (filter (\<lambda>k. \<not> named names k) ks))
        = concat (map (strings_outside names) ks)"
    using Element.IH
  proof (induction ks)
    case Nil
    show ?case by simp
  next
    case (Cons k ks)
    have out: "named names k \<Longrightarrow> strings_outside names k = []"
      by (cases k) simp_all
    from Cons show ?case by (auto simp: out)
  qed
  with Element.prems show ?case by simp
qed

lemma named_outside: "named names k \<Longrightarrow> strings_outside names k = []"
  by (cases k) simp_all

lemma strings_remove_scripts:
  "concat (map strings_of (remove_scripts ns)) =
   concat (map (strings_outside [''script'', ''style'']) ns)"
  unfolding remove_scripts_def
  by (induction ns) (simp_all add: strings_of_prune named_outside del: named.simps)

lemma count_levels:
  "length (filter (named [''h1'']) xs) + length (filter (named [''h2'']) xs) +
   length (filter (named [''h3'']) xs) = length (filter (named [''h1'', ''h2'', ''h3'']) xs)"
proof (induction xs)
  case Nil
  show ?case by simp
next
  case (Cons x xs)
  then show ?case by (cases x) auto
qed

lemma contains_appendI: "contains sub ys \<Longrightarrow> contains sub (xs @ ys)"
  by (induction xs) simp_all

lemma str_int_small: "str_int 1 = ''1''" "str_int 2 = ''2''" "str_int 3 = ''3''"
  by code_simp+

lemma enumerate_length: "length (enumerate_list xs) = length xs"
  by (simp add: enumerate_list_def)

lemma enumerate_snd: "map snd (enumerate_list xs) = xs"
  by (simp add: enumerate_list_def)

lemma enumerate_fst: "map fst (enumerate_list xs) = [0..<length xs]"
  by (simp add: enumerate_list_def)

lemma research_report_eq:
  "research_report gets parse topic depth results =
     [''# Deep Research: '' @ topic @ ''\<newline>'', ''## Search Results Overview\<newline>''] @
     concat (map overview_entry (enumerate_list (slice_to (depth + 2) results))) @
     [''## Detailed Content Analysis\<newline>''] @
     concat (map (source_lines gets parse) (enumerate_list (slice_to depth results))) @
     [''## Research Summary'', footer topic depth]"
  by (simp add: research_report_def overview_loop_eq detail_loop_eq)

lemma in_concat_split:
  "x \<in> set xs \<Longrightarrow> \<exists>pre post. concat (map f xs) = pre @ f x @ post"
proof -
  assume "x \<in> set xs"
  then obtain ys zs where "xs = ys @ x # zs" by (auto simp: in_set_conv_decomp)
  then have "concat (map f xs) = concat (map f ys) @ f x @ concat (map f zs)" by simp
  then show ?thesis by blast
qed

lemma report_has_section:
  assumes "ir \<in> set (enumerate_list (slice_to depth results))"
  shows "\<exists>pre post. research_report gets parse topic depth results =
           pre @ source_lines gets parse ir @ post @ [''## Research Summary'', footer topic depth]"
proof -
  from in_concat_split [OF assms, of "source_lines gets parse"]
  obtain pre post where
    "concat (map (source_lines gets parse) (enumerate_list (slice_to depth results))) =
       pre @ source_lines gets parse ir @ post" by blast
  then show ?thesis
    unfolding research_report_eq
    by (metis append.assoc)
qed

lemma error_prefix: "startswith (''Error fetching page: '' @ e) ''Error''"
  by (simp add: startswith_def)

lemmas dom_eval =
  remove_scripts_def find_all_def soup_descendants_def tag_text_def get_text_def strip_def
  isspace_def heading_line_def link_line_def

section \<open>Heading extraction\<close>

text \<open>
  C1, as the code has it: for every parsed markup, the \<open>headings\<close> branch of
  \<open>fetch_and_parse_webpage\<close> emits one entry \<open>"<TAG-UPPER>: <text>"\<close> per h1, h2 and h3 tag left
  after the script and style tags are removed, grouped by level: every h1 first, then every
  h2, then every h3, each group in document order. The entries are joined by newlines, and
  a document without headings gives the sentence "No headings found on the page.".
  Document order across levels is not kept.
\<close>

theorem headings_grouped_by_level:
  "extraction parsed ''headings'' =
     (let ds = soup_descendants (remove_scripts parsed);
          entries = map (heading_line ''H1'') (filter (named [''h1'']) ds) @
                    map (heading_line ''H2'') (filter (named [''h2'']) ds) @
                    map (heading_line ''H3'') (filter (named [''h3'']) ds)
      in if entries = [] then ''No headings found on the page.'' else join ''\<newline>'' entries)
   \<and> length (headings_of (remove_scripts parsed)) =
       length (filter (named [''h1'', ''h2'', ''h3'']) (soup_descendants (remove_scripts parsed)))"
proof -
  have "length (headings_of (remove_scripts parsed)) =
        length (filter (named [''h1'', ''h2'', ''h3'']) (soup_descendants (remove_scripts parsed)))"
    using count_levels [of "soup_descendants (remove_scripts parsed)"]
    by (simp add: headings_of_eq find_all_def)
  moreover have "extraction parsed ''headings'' =
     (let ds = soup_descendants (remove_scripts parsed);
          entries = map (heading_line ''H1'') (filter (named [''h1'']) ds) @
                    map (heading_line ''H2'') (filter (named [''h2'']) ds) @
                    map (heading_line ''H3'') (filter (named [''h3'']) ds)
      in if entries = [] then ''No headings found on the page.'' else join ''\<newline>'' entries)"
    by (simp add: extraction_def headings_of_eq find_all_def Let_def)
  ultimately show ?thesis by simp
qed

theorem headings_grouped_by_level_witness:
  "extraction
     [Element ''h3'' None [] [Text ''C''],
      Element ''div'' None [] [Element ''h2'' None [] [Text '' B '']],
      Element ''script'' None [] [Element ''h1'' None [] [Text ''S'']],
      Element ''h1'' None [] [Text ''A'']] ''headings'' = ''H1: A\<newline>H2: B\<newline>H3: C''"
  using headings_grouped_by_level
    [of "[Element ''h3'' None [] [Text ''C''],
          Element ''div'' None [] [Element ''h2'' None [] [Text '' B '']],
          Element ''script'' None [] [Element ''h1'' None [] [Text ''S'']],
          Element ''h1'' None [] [Text ''A'']]"]
  by (simp add: dom_eval)

theorem headings_document_order_counterexample:
  "extraction [Element ''h2'' None [] [Text ''A''], Element ''h1'' None [] [Text ''B'']]
     ''headings'' = ''H1: B\<newline>H2: A''"
  by (simp add: extraction_def headings_of_def heading_tags_def dom_eval)

section \<open>Full-text extraction\<close>

text \<open>
  C5: for every parsed markup, the \<open>full_text\<close> branch returns the text built from the
  strings that are outside every script and style tag (each stripped, the empty ones
  dropped, joined by newlines), cut to its first 10000 characters and followed by "..."
  exactly when that text is longer than 10000 characters; the result is never longer than
  10003 characters.
\<close>

theorem full_text_bounded_and_script_free:
  "extraction parsed ''full_text'' =
     (let text = join ''\<newline>'' (filter (\<lambda>s. s \<noteq> [])
                   (map strip (concat (map (strings_outside [''script'', ''style'']) parsed))))
      in if length text > 10000 then take 10000 text @ ''...'' else text)
   \<and> length (extraction parsed ''full_text'') \<le> 10003"
proof -
  have "extraction parsed ''full_text'' = truncated (get_text ''\<newline>'' (remove_scripts parsed))"
    by (simp add: extraction_def)
  then show ?thesis
    using length_truncated [of "get_text ''\<newline>'' (remove_scripts parsed)"]
    by (simp add: get_text_def strings_remove_scripts truncated_def)
qed

theorem full_text_bounded_and_script_free_witness:
  "extraction
     [Element ''p'' None [] [Text '' hi ''],
      Element ''style'' None [] [Text ''p {}''],
      Element ''div'' None [] [Element ''script'' None [] [Text ''x = 1''], Text ''there'']]
     ''full_text'' = ''hi\<newline>there''"
  using full_text_bounded_and_script_free
    [of "[Element ''p'' None [] [Text '' hi ''],
          Element ''style'' None [] [Text ''p {}''],
          Element ''div'' None [] [Element ''script'' None [] [Text ''x = 1''], Text ''there'']]"]
  by (simp add: strip_def isspace_def)

section \<open>Link extraction\<close>

text \<open>
  C8: for every parsed markup, the \<open>links\<close> branch returns the entries
  \<open>"<anchor text or '[No text]'>: <href>"\<close> of the first 100 anchors that have an href, in
  document order, joined by newlines; the anchors after the hundredth are dropped without a
  trace, so there are never more than 100 entries.
\<close>

theorem links_capped_at_100:
  "extraction parsed ''links'' =
     (let anchors = filter has_href (soup_descendants (remove_scripts parsed));
          entries = map link_line (take 100 anchors)
      in if anchors = [] then ''No links found on the page.'' else join ''\<newline>'' entries)
   \<and> length (map link_line
         (take 100 (filter has_href (soup_descendants (remove_scripts parsed))))) =
       min 100 (length (filter has_href (soup_descendants (remove_scripts parsed))))
   \<and> take 100 (links_of (remove_scripts parsed)) =
       map link_line (take 100 (filter has_href (soup_descendants (remove_scripts parsed))))"
  by (simp add: extraction_def links_of_eq find_all_def Let_def take_map min_def)

theorem links_capped_at_100_witness:
  "extraction
     [Element ''a'' None [(''href'', ''/x'')] [Text ''one''],
      Element ''a'' None [] [Text ''anchor without href''],
      Element ''p'' None [] [Element ''a'' None [(''href'', ''/y'')] []]]
     ''links'' = ''one: /x\<newline>[No text]: /y''"
  using links_capped_at_100
    [of "[Element ''a'' None [(''href'', ''/x'')] [Text ''one''],
          Element ''a'' None [] [Text ''anchor without href''],
          Element ''p'' None [] [Element ''a'' None [(''href'', ''/y'')] []]]"]
  by (simp add: dom_eval)

section \<open>Invalid extraction type\<close>

text \<open>
  C7, as the code has it: for every markup that does not begin with "Error" and every
  extraction type that is not one of "full_text", "main_content", "headings" and "links",
  \<open>fetch_and_parse_webpage\<close> returns the literal message
  "Invalid extraction_type: <type>. Valid options are ..." that names all four valid types.
  The same holds of the extraction stage for every parsed markup. A response text that
  begins with "Error" is returned as it is, before the extraction type is looked at.
\<close>

theorem invalid_mode_message:
  assumes "extraction_type \<notin> set valid_modes"
      and "get url = Inr markup"
      and "\<not> startswith markup ''Error''"
  shows "fetch_and_parse_webpage get parse url extraction_type = invalid_message extraction_type
       \<and> extraction parsed extraction_type = invalid_message extraction_type
       \<and> list_all (\<lambda>m. contains m (invalid_message extraction_type)) valid_modes"
proof -
  have e: "extraction parsed extraction_type = invalid_message extraction_type" for parsed
    using assms(1) by (simp add: extraction_def valid_modes_def Let_def)
  have f: "fetch_webpage_content get url = markup"
    using assms(2) by (simp add: fetch_webpage_content_def)
  have g: "fetch_and_parse_webpage get parse url extraction_type =
           invalid_message extraction_type"
    using assms(3) by (simp add: fetch_and_parse_webpage_def f e)
  have t: "contains m (''Invalid extraction_type: '' @ extraction_type @ tl)"
    if "contains m tl" for m tl
    using that by (simp add: contains_appendI)
  have "contains ''full_text'' (invalid_message extraction_type)"
    unfolding invalid_message_def by (rule t) (simp add: startswith_def)
  moreover have "contains ''main_content'' (invalid_message extraction_type)"
    unfolding invalid_message_def by (rule t) (simp add: startswith_def)
  moreover have "contains ''headings'' (invalid_message extraction_type)"
    unfolding invalid_message_def by (rule t) (simp add: startswith_def)
  moreover have "contains ''links'' (invalid_message extraction_type)"
    unfolding invalid_message_def by (rule t) (simp add: startswith_def)
  ultimately show ?thesis
    using e g by (simp add: valid_modes_def)
qed

theorem invalid_mode_message_witness:
  "fetch_and_parse_webpage (\<lambda>u. Inr ''<p>x</p>'') (\<lambda>h. [Element ''p'' None [] [Text ''x'']])
     ''http://a'' ''bogus'' =
   ''Invalid extraction_type: bogus. Valid options are 'full_text', 'main_content', 'headings', or 'links'.''"
  using invalid_mode_message
    [where extraction_type = "''bogus''" and get = "\<lambda>u. Inr ''<p>x</p>''" and url = "''http://a''"
       and markup = "''<p>x</p>''" and parse = "\<lambda>h. [Element ''p'' None [] [Text ''x'']]"]
  by (simp add: valid_modes_def startswith_def invalid_message_def)

theorem invalid_mode_counterexample:
  "fetch_and_parse_webpage (\<lambda>u. Inr ''Error 404'') (\<lambda>h. [Text h]) ''http://a'' ''bogus'' =
     ''Error 404''
   \<and> ''bogus'' \<notin> set valid_modes
   \<and> \<not> contains ''full_text'' ''Error 404''"
  by (simp add: fetch_and_parse_webpage_def fetch_webpage_content_def startswith_def
      valid_modes_def)

section \<open>The shape of the research report\<close>

text \<open>
  C3, as the code has it: for every depth of at least 1 and every provider reply that has
  no \<open>error\<close> key and holds \<open>n\<close> organic results, \<open>n\<close> at least 1, \<open>deep_research\<close> returns
  the lines of the report joined by newlines: the header, one overview entry for each of
  the first \<open>depth + 2\<close> results, the analysis header, one detailed section for each of the
  first \<open>depth\<close> results, and the footer, the entries and the sections in the provider's
  order. There are exactly \<open>min (depth + 2) n\<close> overview entries and \<open>min depth n\<close> sections,
  so never fewer entries than sections; entry and section number \<open>k\<close> belong to result
  number \<open>k\<close> and open with the lines "<k>. **<title>**" and "### Source <k>: <title>".
\<close>

theorem report_section_counts:
  assumes "1 \<le> depth"
      and "p topic (depth + 2) = Inr sr"
      and "error sr = None"
      and "organic sr = Some results"
      and "results \<noteq> []"
  shows "deep_research p gets parse topic depth =
     join ''\<newline>''
       ([''# Deep Research: '' @ topic @ ''\<newline>'', ''## Search Results Overview\<newline>''] @
        concat (map overview_entry (enumerate_list (take (nat depth + 2) results))) @
        [''## Detailed Content Analysis\<newline>''] @
        concat (map (source_lines gets parse) (enumerate_list (take (nat depth) results))) @
        [''## Research Summary'', footer topic depth])
   \<and> length (enumerate_list (take (nat depth + 2) results)) = min (nat depth + 2) (length results)
   \<and> length (enumerate_list (take (nat depth) results)) = min (nat depth) (length results)
   \<and> map snd (enumerate_list (take (nat depth + 2) results)) = take (nat depth + 2) results
   \<and> map snd (enumerate_list (take (nat depth) results)) = take (nat depth) results
   \<and> map fst (enumerate_list (take (nat depth + 2) results)) =
       [0..<min (nat depth + 2) (length results)]
   \<and> map fst (enumerate_list (take (nat depth) results)) =
       [0..<min (nat depth) (length results)]
   \<and> min (nat depth) (length results) \<le> min (nat depth + 2) (length results)
   \<and> 1 \<le> min (nat depth) (length results)
   \<and> map (\<lambda>ir. hd (overview_entry ir)) (enumerate_list (take (nat depth + 2) results)) =
       map (\<lambda>ir. str_int (int (fst ir) + 1) @ ''. **'' @
                   dict_get (title (snd ir)) ''No title'' @ ''**'')
         (enumerate_list (take (nat depth + 2) results))
   \<and> map (\<lambda>ir. hd (source_lines gets parse ir)) (enumerate_list (take (nat depth) results)) =
       map (\<lambda>ir. ''### Source '' @ str_int (int (fst ir) + 1) @ '': '' @
                   dict_get (title (snd ir)) ''No title'')
         (enumerate_list (take (nat depth) results))"
proof -
  have a: "slice_to (depth + 2) results = take (nat depth + 2) results"
    using assms(1) by (simp add: slice_to_nonneg nat_add_distrib)
  have b: "slice_to depth results = take (nat depth) results"
    using assms(1) by (simp add: slice_to_nonneg)
  have c: "1 \<le> length results" using assms(5) by (cases results) simp_all
  have d: "1 \<le> nat depth" using assms(1) by simp
  have e: "hd (source_lines gets parse ir) =
           ''### Source '' @ str_int (int (fst ir) + 1) @ '': '' @
             dict_get (title (snd ir)) ''No title''" for ir
    by (cases ir) (simp add: source_lines_def Let_def)
  have e': "hd (overview_entry ir) =
           str_int (int (fst ir) + 1) @ ''. **'' @ dict_get (title (snd ir)) ''No title'' @ ''**''"
    for ir
    by (cases ir) (simp add: overview_entry_def)
  have f: "deep_research p gets parse topic depth =
             join ''\<newline>'' (research_report gets parse topic depth results)"
    using assms(2-5)
    by (simp add: deep_research_def make_search_request_def no_organic_def organic_list_def)
  have g: "deep_research p gets parse topic depth =
     join ''\<newline>''
       ([''# Deep Research: '' @ topic @ ''\<newline>'', ''## Search Results Overview\<newline>''] @
        concat (map overview_entry (enumerate_list (take (nat depth + 2) results))) @
        [''## Detailed Content Analysis\<newline>''] @
        concat (map (source_lines gets parse) (enumerate_list (take (nat depth) results))) @
        [''## Research Summary'', footer topic depth])"
    by (simp only: f research_report_eq a b)
  have l1: "length (enumerate_list (take (nat depth + 2) results)) =
            min (nat depth + 2) (length results)"
    by (simp add: enumerate_length)
  have l2: "length (enumerate_list (take (nat depth) results)) = min (nat depth) (length results)"
    by (simp add: enumerate_length)
  have s1: "map snd (enumerate_list (take (nat depth + 2) results)) =
            take (nat depth + 2) results"
    by (rule enumerate_snd)
  have s2: "map snd (enumerate_list (take (nat depth) results)) = take (nat depth) results"
    by (rule enumerate_snd)
  have s3: "map fst (enumerate_list (take (nat depth + 2) results)) =
            [0..<min (nat depth + 2) (length results)]"
    by (simp add: enumerate_fst min.commute)
  have s4: "map fst (enumerate_list (take (nat depth) results)) =
            [0..<min (nat depth) (length results)]"
    by (simp add: enumerate_fst min.commute)
  have h: "min (nat depth) (length results) \<le> min (nat depth + 2) (length results)"
    by simp
  have i: "1 \<le> min (nat depth) (length results)"
    using c d by simp
  have m': "map (\<lambda>ir. hd (overview_entry ir)) (enumerate_list (take (nat depth + 2) results)) =
       map (\<lambda>ir. str_int (int (fst ir) + 1) @ ''. **'' @
                   dict_get (title (snd ir)) ''No title'' @ ''**'')
         (enumerate_list (take (nat depth + 2) results))"
    by (simp only: e')
  have m: "map (\<lambda>ir. hd (source_lines gets parse ir)) (enumerate_list (take (nat depth) results)) =
       map (\<lambda>ir. ''### Source '' @ str_int (int (fst ir) + 1) @ '': '' @
                   dict_get (title (snd ir)) ''No title'')
         (enumerate_list (take (nat depth) results))"
    by (simp only: e)
  show ?thesis
    using g l1 l2 s1 s2 s3 s4 h i m' m by (intro conjI) assumption+
qed

theorem report_section_counts_witness:
  "deep_research
     (\<lambda>q n. Inr \<lparr>error = None, organic = Some
        [\<lparr>title = Some ''A'', link = Some ''a'', snippet = None\<rparr>,
         \<lparr>title = Some ''B'', link = Some ''b'', snippet = None\<rparr>,
         \<lparr>title = Some ''C'', link = Some ''c'', snippet = None\<rparr>,
         \<lparr>title = Some ''D'', link = Some ''d'', snippet = None\<rparr>]\<rparr>)
     (\<lambda>i u. Inr ''<p>hello</p>'') (\<lambda>h. [Element ''p'' None [] [Text ''hello'']]) ''t'' 1 =
   join ''\<newline>''
     [''# Deep Research: t\<newline>'',
      ''## Search Results Overview\<newline>'',
      ''1. **A**'', ''   URL: a'', ''   Summary: No description\<newline>'',
      ''2. **B**'', ''   URL: b'', ''   Summary: No description\<newline>'',
      ''3. **C**'', ''   URL: c'', ''   Summary: No description\<newline>'',
      ''## Detailed Content Analysis\<newline>'',
      ''### Source 1: A'', ''URL: a\<newline>'',
      ''#### Key Points:\<newline>'', ''- No clear headings found on this page.'', [],
      ''#### Summary of Content:\<newline>'', ''hello...'', ''\<newline>---\<newline>'',
      ''## Research Summary'',
      ''This research explored 1 sources on the topic 't'. To further explore this topic, consider reading the full content of the most relevant sources or refining your search terms.'']"
  using report_section_counts
    [where depth = 1
       and p = "\<lambda>q n. Inr \<lparr>error = None, organic = Some
          [\<lparr>title = Some ''A'', link = Some ''a'', snippet = None\<rparr>,
           \<lparr>title = Some ''B'', link = Some ''b'', snippet = None\<rparr>,
           \<lparr>title = Some ''C'', link = Some ''c'', snippet = None\<rparr>,
           \<lparr>title = Some ''D'', link = Some ''d'', snippet = None\<rparr>]\<rparr>"
       and sr = "\<lparr>error = None, organic = Some
          [\<lparr>title = Some ''A'', link = Some ''a'', snippet = None\<rparr>,
           \<lparr>title = Some ''B'', link = Some ''b'', snippet = None\<rparr>,
           \<lparr>title = Some ''C'', link = Some ''c'', snippet = None\<rparr>,
           \<lparr>title = Some ''D'', link = Some ''d'', snippet = None\<rparr>]\<rparr>"
       and results =
         "[\<lparr>title = Some ''A'', link = Some ''a'', snippet = None\<rparr>,
           \<lparr>title = Some ''B'', link = Some ''b'', snippet = None\<rparr>,
           \<lparr>title = Some ''C'', link = Some ''c'', snippet = None\<rparr>,
           \<lparr>title = Some ''D'', link = Some ''d'', snippet = None\<rparr>]"
       and gets = "\<lambda>i u. Inr ''<p>hello</p>''"
       and parse = "\<lambda>h. [Element ''p'' None [] [Text ''hello'']]" and topic = "''t''"]
  by (simp add: enumerate_list_def overview_entry_def source_lines_def
      fetch_webpage_content_def startswith_def footer_def dict_get_def str_int_small
      key_points_def heading_tags_def content_summary_def dom_eval)

theorem report_section_counts_counterexample:
  "organic \<lparr>error = Some ''rate limited'', organic = Some
       [\<lparr>title = Some ''A'', link = Some ''a'', snippet = None\<rparr>]\<rparr> =
     Some [\<lparr>title = Some ''A'', link = Some ''a'', snippet = None\<rparr>]
   \<and> deep_research
       (\<lambda>q n. Inr \<lparr>error = Some ''rate limited'', organic = Some
          [\<lparr>title = Some ''A'', link = Some ''a'', snippet = None\<rparr>]\<rparr>)
       (\<lambda>i u. Inr ''<p>hello</p>'') (\<lambda>h. [Element ''p'' None [] [Text ''hello'']]) ''t'' 1 =
     ''Error performing search: rate limited''"
  by (simp add: deep_research_def make_search_request_def)

section \<open>Failing sources\<close>

text \<open>
  C4, as the code has it: in \<open>deep_research\<close>, when the fetch of one explored source fails
  while the fetch of another explored source succeeds with a text that does not begin with
  "Error", the failing source's section is its two heading lines followed only by the line
  "Could not access this page: Error fetching page: <reason>", the succeeding source's
  section still holds its key points and its content summary, and both sections stand in
  the report, which still ends with the research summary: a failing fetch neither removes
  another source's section nor aborts the report.
\<close>

theorem failing_fetch_keeps_other_sections:
  assumes "(j, rj) \<in> set (enumerate_list (slice_to depth results))"
      and "(i, ri) \<in> set (enumerate_list (slice_to depth results))"
      and "gets j (dict_get (link rj) ''No link'') = Inl reason"
      and "gets i (dict_get (link ri) ''No link'') = Inr body"
      and "\<not> startswith body ''Error''"
  shows "source_lines gets parse (j, rj) =
           [''### Source '' @ str_int (int j + 1) @ '': '' @ dict_get (title rj) ''No title'',
            ''URL: '' @ dict_get (link rj) ''No link'' @ ''\<newline>'',
            ''Could not access this page: '' @ (''Error fetching page: '' @ reason) @ ''\<newline>'']
       \<and> source_lines gets parse (i, ri) =
           [''### Source '' @ str_int (int i + 1) @ '': '' @ dict_get (title ri) ''No title'',
            ''URL: '' @ dict_get (link ri) ''No link'' @ ''\<newline>'',
            ''#### Key Points:\<newline>''] @
           (let hs = key_points (remove_scripts (parse body))
            in if hs \<noteq> [] then take 10 hs @ [[]]
               else [''- No clear headings found on this page.'', []]) @
           [''#### Summary of Content:\<newline>'',
            content_summary (remove_scripts (parse body)),
            ''\<newline>---\<newline>'']
       \<and> (\<exists>pre post. research_report gets parse topic depth results =
             pre @ source_lines gets parse (j, rj) @ post @
             [''## Research Summary'', footer topic depth])
       \<and> (\<exists>pre post. research_report gets parse topic depth results =
             pre @ source_lines gets parse (i, ri) @ post @
             [''## Research Summary'', footer topic depth])"
proof -
  have fj: "fetch_webpage_content (gets j) (dict_get (link rj) ''No link'') =
            ''Error fetching page: '' @ reason"
    using assms(3) by (simp add: fetch_webpage_content_def)
  have fi: "fetch_webpage_content (gets i) (dict_get (link ri) ''No link'') = body"
    using assms(4) by (simp add: fetch_webpage_content_def)
  have sj: "startswith (fetch_webpage_content (gets j) (dict_get (link rj) ''No link'')) ''Error''"
    unfolding fj by (rule error_prefix)
  have si: "\<not> startswith (fetch_webpage_content (gets i) (dict_get (link ri) ''No link'')) ''Error''"
    unfolding fi by (rule assms(5))
  have a: "source_lines gets parse (j, rj) =
           [''### Source '' @ str_int (int j + 1) @ '': '' @ dict_get (title rj) ''No title'',
            ''URL: '' @ dict_get (link rj) ''No link'' @ ''\<newline>'',
            ''Could not access this page: '' @ (''Error fetching page: '' @ reason) @ ''\<newline>'']"
    using sj by (simp add: source_lines_def Let_def fj)
  have b: "source_lines gets parse (i, ri) =
           [''### Source '' @ str_int (int i + 1) @ '': '' @ dict_get (title ri) ''No title'',
            ''URL: '' @ dict_get (link ri) ''No link'' @ ''\<newline>'',
            ''#### Key Points:\<newline>''] @
           (let hs = key_points (remove_scripts (parse body))
            in if hs \<noteq> [] then take 10 hs @ [[]]
               else [''- No clear headings found on this page.'', []]) @
           [''#### Summary of Content:\<newline>'',
            content_summary (remove_scripts (parse body)),
            ''\<newline>---\<newline>'']"
    using si by (simp add: source_lines_def Let_def fi)
  note c = report_has_section [OF assms(1), of gets parse topic]
  note d = report_has_section [OF assms(2), of gets parse topic]
  show ?thesis
    using a b c d by (intro conjI) assumption+
qed

theorem failing_fetch_keeps_other_sections_witness:
  "source_lines (\<lambda>i u. if i = 0 then Inl ''timeout'' else Inr ''<h1>Title here</h1>'')
     (\<lambda>h. [Element ''h1'' None [] [Text ''Title here'']])
     (0, \<lparr>title = Some ''A'', link = Some ''a'', snippet = None\<rparr>) =
     [''### Source 1: A'', ''URL: a\<newline>'',
      ''Could not access this page: Error fetching page: timeout\<newline>'']
   \<and> source_lines (\<lambda>i u. if i = 0 then Inl ''timeout'' else Inr ''<h1>Title here</h1>'')
     (\<lambda>h. [Element ''h1'' None [] [Text ''Title here'']])
     (1, \<lparr>title = Some ''B'', link = Some ''b'', snippet = None\<rparr>) =
     [''### Source 2: B'', ''URL: b\<newline>'', ''#### Key Points:\<newline>'', ''- Title here'', [],
      ''#### Summary of Content:\<newline>'', ''Title here...'', ''\<newline>---\<newline>'']"
  using failing_fetch_keeps_other_sections
    [where j = 0 and rj = "\<lparr>title = Some ''A'', link = Some ''a'', snippet = None\<rparr>"
       and i = 1 and ri = "\<lparr>title = Some ''B'', link = Some ''b'', snippet = None\<rparr>"
       and depth = 2
       and results = "[\<lparr>title = Some ''A'', link = Some ''a'', snippet = None\<rparr>,
                       \<lparr>title = Some ''B'', link = Some ''b'', snippet = None\<rparr>]"
       and gets = "\<lambda>i u. if i = 0 then Inl ''timeout'' else Inr ''<h1>Title here</h1>''"
       and reason = "''timeout''" and body = "''<h1>Title here</h1>''"
       and parse = "\<lambda>h. [Element ''h1'' None [] [Text ''Title here'']]" and topic = "''t''"]
  by (simp add: enumerate_list_def slice_to_def startswith_def dict_get_def str_int_small
      key_points_def heading_tags_def content_summary_def dom_eval)

theorem failing_fetch_counterexample:
  "research_report
     (\<lambda>i u. if i = 0 then Inl ''timeout'' else Inr ''Error budgets <h1>Title here</h1>'')
     (\<lambda>h. [Text ''Error budgets '', Element ''h1'' None [] [Text ''Title here'']]) ''t'' 2
     [\<lparr>title = Some ''A'', link = Some ''a'', snippet = None\<rparr>,
      \<lparr>title = Some ''B'', link = Some ''b'', snippet = None\<rparr>] =
     [''# Deep Research: t\<newline>'',
      ''## Search Results Overview\<newline>'',
      ''1. **A**'', ''   URL: a'', ''   Summary: No description\<newline>'',
      ''2. **B**'', ''   URL: b'', ''   Summary: No description\<newline>'',
      ''## Detailed Content Analysis\<newline>'',
      ''### Source 1: A'', ''URL: a\<newline>'',
      ''Could not access this page: Error fetching page: timeout\<newline>'',
      ''### Source 2: B'', ''URL: b\<newline>'',
      ''Could not access this page: Error budgets <h1>Title here</h1>\<newline>'',
      ''## Research Summary'',
      ''This research explored 2 sources on the topic 't'. To further explore this topic, consider reading the full content of the most relevant sources or refining your search terms.'']"
  by (simp add: research_report_def slice_to_def enumerate_list_def overview_entry_def
      source_lines_def fetch_webpage_content_def startswith_def footer_def dict_get_def
      str_int_small)

section \<open>Texts that begin with "Error"\<close>

text \<open>
  C9: success and failure of a fetch are told apart only by whether the returned text
  starts with "Error". So when the HTTP fetch of a URL succeeds and the response text itself
  begins with "Error", \<open>fetch_and_parse_webpage\<close> returns that text unparsed, whatever the
  extraction type, and \<open>deep_research\<close> reports the source with the line "Could not access
  this page: <text>" and extracts neither headings nor a summary. What
  \<open>fetch_and_parse_webpage\<close> returns depends on the fetch only through the returned text.
\<close>

theorem error_prefixed_body_is_failure:
  assumes "startswith body ''Error''"
  shows "(get url = Inr body \<longrightarrow>
            fetch_and_parse_webpage get parse url extraction_type = body)
       \<and> (gets i (dict_get (link r) ''No link'') = Inr body \<longrightarrow>
            source_lines gets parse (i, r) =
              [''### Source '' @ str_int (int i + 1) @ '': '' @ dict_get (title r) ''No title'',
               ''URL: '' @ dict_get (link r) ''No link'' @ ''\<newline>'',
               ''Could not access this page: '' @ body @ ''\<newline>''])
       \<and> (fetch_webpage_content get url = fetch_webpage_content get' url' \<longrightarrow>
            fetch_and_parse_webpage get parse url extraction_type =
            fetch_and_parse_webpage get' parse url' extraction_type)"
proof -
  have a: "get url = Inr body \<longrightarrow>
           fetch_and_parse_webpage get parse url extraction_type = body"
    using assms by (simp add: fetch_and_parse_webpage_def fetch_webpage_content_def)
  have b: "gets i (dict_get (link r) ''No link'') = Inr body \<longrightarrow>
            source_lines gets parse (i, r) =
              [''### Source '' @ str_int (int i + 1) @ '': '' @ dict_get (title r) ''No title'',
               ''URL: '' @ dict_get (link r) ''No link'' @ ''\<newline>'',
               ''Could not access this page: '' @ body @ ''\<newline>'']"
  proof
    assume g: "gets i (dict_get (link r) ''No link'') = Inr body"
    have f: "fetch_webpage_content (gets i) (dict_get (link r) ''No link'') = body"
      using g by (simp add: fetch_webpage_content_def)
    have s: "startswith (fetch_webpage_content (gets i) (dict_get (link r) ''No link'')) ''Error''"
      unfolding f by (rule assms)
    show "source_lines gets parse (i, r) =
              [''### Source '' @ str_int (int i + 1) @ '': '' @ dict_get (title r) ''No title'',
               ''URL: '' @ dict_get (link r) ''No link'' @ ''\<newline>'',
               ''Could not access this page: '' @ body @ ''\<newline>'']"
      using s by (simp add: source_lines_def Let_def f)
  qed
  have c: "fetch_webpage_content get url = fetch_webpage_content get' url' \<longrightarrow>
            fetch_and_parse_webpage get parse url extraction_type =
            fetch_and_parse_webpage get' parse url' extraction_type"
    by (simp add: fetch_and_parse_webpage_def)
  show ?thesis
    using a b c by (intro conjI) assumption+
qed

theorem error_prefixed_body_is_failure_witness:
  "fetch_and_parse_webpage (\<lambda>u. Inr ''Error budgets explained'')
     (\<lambda>h. [Element ''h1'' None [] [Text ''Error budgets explained'']]) ''http://a'' ''headings'' =
     ''Error budgets explained''
   \<and> source_lines (\<lambda>i u. Inr ''Error budgets explained'')
     (\<lambda>h. [Element ''h1'' None [] [Text ''Error budgets explained'']])
     (0, \<lparr>title = Some ''A'', link = Some ''a'', snippet = None\<rparr>) =
     [''### Source 1: A'', ''URL: a\<newline>'',
      ''Could not access this page: Error budgets explained\<newline>'']"
  using error_prefixed_body_is_failure
    [where body = "''Error budgets explained''" and get = "\<lambda>u. Inr ''Error budgets explained''"
       and url = "''http://a''" and extraction_type = "''headings''"
       and parse = "\<lambda>h. [Element ''h1'' None [] [Text ''Error budgets explained'']]"
       and gets = "\<lambda>i u. Inr ''Error budgets explained''" and i = 0
       and r = "\<lparr>title = Some ''A'', link = Some ''a'', snippet = None\<rparr>"
       and get' = "\<lambda>u. Inr ''Error budgets explained''" and url' = "''http://a''"]
  by (simp add: startswith_def dict_get_def str_int_small)

section \<open>The content summary\<close>

text \<open>
  C10: in the section of every source of \<open>deep_research\<close> that was fetched (its text is not
  marked as a failure), the entry that follows "#### Summary of Content:" is the first 500
  characters of the main-content text, or of the page text when no main element is found,
  followed by "..." in every case, also when that text has fewer than 500 characters; the
  entry ends with "..." and has at most 503 characters.
\<close>

theorem summary_always_ends_with_ellipsis:
  assumes "gets i (dict_get (link r) ''No link'') = Inr body"
      and "\<not> startswith body ''Error''"
  shows "\<exists>pre s. source_lines gets parse (i, r) =
                   pre @ [''#### Summary of Content:\<newline>'', s @ ''...'', ''\<newline>---\<newline>'']
               \<and> s = take 500
                     (case find_all is_main (remove_scripts (parse body)) of
                        m # ms \<Rightarrow> join '' '' (take 3 (split CHR 0x0A (tag_text '' '' m)))
                      | [] \<Rightarrow> get_text '' '' (remove_scripts (parse body)))
               \<and> length s \<le> 500 \<and> length (s @ ''...'') \<le> 503"
proof -
  let ?sp = "remove_scripts (parse body)"
  let ?s = "take 500
              (case find_all is_main ?sp of
                 m # ms \<Rightarrow> join '' '' (take 3 (split CHR 0x0A (tag_text '' '' m)))
               | [] \<Rightarrow> get_text '' '' ?sp)"
  let ?pre = "[''### Source '' @ str_int (int i + 1) @ '': '' @ dict_get (title r) ''No title'',
               ''URL: '' @ dict_get (link r) ''No link'' @ ''\<newline>'',
               ''#### Key Points:\<newline>''] @
              (let hs = key_points ?sp
               in if hs \<noteq> [] then take 10 hs @ [[]]
                  else [''- No clear headings found on this page.'', []])"
  have f: "fetch_webpage_content (gets i) (dict_get (link r) ''No link'') = body"
    using assms(1) by (simp add: fetch_webpage_content_def)
  have c: "content_summary ?sp = ?s @ ''...''"
    by (simp add: content_summary_def Let_def split: list.splits)
  have "source_lines gets parse (i, r) =
          ?pre @ [''#### Summary of Content:\<newline>'', content_summary ?sp, ''\<newline>---\<newline>'']"
    using assms(2) by (simp add: source_lines_def Let_def f)
  then have "source_lines gets parse (i, r) =
          ?pre @ [''#### Summary of Content:\<newline>'', ?s @ ''...'', ''\<newline>---\<newline>'']"
    by (simp only: c)
  moreover have "length ?s \<le> 500" by simp
  moreover have "length (?s @ ''...'') \<le> 503" by simp
  ultimately show ?thesis by blast
qed

theorem summary_always_ends_with_ellipsis_witness:
  "source_lines (\<lambda>i u. Inr ''<p>hello</p>'') (\<lambda>h. [Element ''p'' None [] [Text ''hello'']])
     (0, \<lparr>title = Some ''A'', link = Some ''a'', snippet = None\<rparr>) =
     [''### Source 1: A'', ''URL: a\<newline>'', ''#### Key Points:\<newline>'',
      ''- No clear headings found on this page.'', [],
      ''#### Summary of Content:\<newline>'', ''hello...'', ''\<newline>---\<newline>'']"
  using summary_always_ends_with_ellipsis
    [where gets = "\<lambda>i u. Inr ''<p>hello</p>''" and i = 0
       and r = "\<lparr>title = Some ''A'', link = Some ''a'', snippet = None\<rparr>"
       and body = "''<p>hello</p>''" and parse = "\<lambda>h. [Element ''p'' None [] [Text ''hello'']]"]
  by (simp add: source_lines_def fetch_webpage_content_def startswith_def dict_get_def
      str_int_small key_points_def heading_tags_def content_summary_def dom_eval)

section \<open>Search errors and empty results\<close>

text \<open>
  C6, as the code has it: the search result carries an \<open>error\<close> key when the provider call
  raised, and also when the provider's own reply has one; in both cases \<open>web_search\<close> and
  \<open>deep_research\<close> return the single line "Error performing search: <message>". A reply
  without an \<open>error\<close> key that lacks the \<open>organic\<close> key or carries an empty \<open>organic\<close> list
  makes \<open>web_search\<close> return "No results found for your query." and \<open>deep_research\<close> return
  "No results found for your topic."; these differ from every error line. In the one
  remaining case, a reply without \<open>error\<close> and with at least one organic result,
  \<open>deep_research\<close> returns the report, so the error case and the no-results case are the
  only two in which it returns without one.
\<close>

theorem search_outcomes:
  "(p query n = Inl e \<longrightarrow> web_search p query n = ''Error performing search: '' @ e)
 \<and> (p query n = Inr sr \<and> error sr = Some e \<longrightarrow>
        web_search p query n = ''Error performing search: '' @ e)
 \<and> (p query n = Inr sr \<and> error sr = None \<and> (organic sr = None \<or> organic sr = Some []) \<longrightarrow>
        web_search p query n = ''No results found for your query.'')
 \<and> (p topic (depth + 2) = Inl e \<longrightarrow>
        deep_research p gets parse topic depth = ''Error performing search: '' @ e)
 \<and> (p topic (depth + 2) = Inr sr \<and> error sr = Some e \<longrightarrow>
        deep_research p gets parse topic depth = ''Error performing search: '' @ e)
 \<and> (p topic (depth + 2) = Inr sr \<and> error sr = None \<and>
        (organic sr = None \<or> organic sr = Some []) \<longrightarrow>
        deep_research p gets parse topic depth = ''No results found for your topic.'')
 \<and> (p topic (depth + 2) = Inr sr \<and> error sr = None \<and> organic sr = Some rs \<and> rs \<noteq> [] \<longrightarrow>
        deep_research p gets parse topic depth =
          join ''\<newline>'' (research_report gets parse topic depth rs))
 \<and> ''Error performing search: '' @ e \<noteq> ''No results found for your query.''
 \<and> ''Error performing search: '' @ e \<noteq> ''No results found for your topic.''"
proof -
  have w1: "p query n = Inl e \<longrightarrow> web_search p query n = ''Error performing search: '' @ e"
    by (simp add: web_search_def make_search_request_def)
  have w2: "p query n = Inr sr \<and> error sr = Some e \<longrightarrow>
        web_search p query n = ''Error performing search: '' @ e"
    by (simp add: web_search_def make_search_request_def)
  have w3: "p query n = Inr sr \<and> error sr = None \<and> (organic sr = None \<or> organic sr = Some []) \<longrightarrow>
        web_search p query n = ''No results found for your query.''"
    by (auto simp: web_search_def make_search_request_def no_organic_def)
  have d1: "p topic (depth + 2) = Inl e \<longrightarrow>
        deep_research p gets parse topic depth = ''Error performing search: '' @ e"
    by (simp add: deep_research_def make_search_request_def)
  have d2: "p topic (depth + 2) = Inr sr \<and> error sr = Some e \<longrightarrow>
        deep_research p gets parse topic depth = ''Error performing search: '' @ e"
    by (simp add: deep_research_def make_search_request_def)
  have d3: "p topic (depth + 2) = Inr sr \<and> error sr = None \<and>
        (organic sr = None \<or> organic sr = Some []) \<longrightarrow>
        deep_research p gets parse topic depth = ''No results found for your topic.''"
    by (auto simp: deep_research_def make_search_request_def no_organic_def)
  have d4: "p topic (depth + 2) = Inr sr \<and> error sr = None \<and> organic sr = Some rs \<and> rs \<noteq> [] \<longrightarrow>
        deep_research p gets parse topic depth =
          join ''\<newline>'' (research_report gets parse topic depth rs)"
    by (simp add: deep_research_def make_search_request_def no_organic_def organic_list_def)
  have n1: "''Error performing search: '' @ e \<noteq> ''No results found for your query.''"
    by simp
  have n2: "''Error performing search: '' @ e \<noteq> ''No results found for your topic.''"
    by simp
  show ?thesis
    using w1 w2 w3 d1 d2 d3 d4 n1 n2 by (intro conjI) assumption+
qed

theorem search_outcomes_witness:
  "web_search (\<lambda>q n. if q = ''down'' then Inl ''timed out'' else Inr \<lparr>error = None, organic = Some []\<rparr>)
     ''down'' 5 = ''Error performing search: timed out''
   \<and> web_search (\<lambda>q n. if q = ''down'' then Inl ''timed out'' else Inr \<lparr>error = None, organic = Some []\<rparr>)
     ''rare'' 5 = ''No results found for your query.''
   \<and> deep_research (\<lambda>q n. if q = ''down'' then Inl ''timed out'' else Inr \<lparr>error = None, organic = Some []\<rparr>)
     (\<lambda>i u. Inl ''x'') (\<lambda>h. []) ''rare'' 2 = ''No results found for your topic.''"
  using search_outcomes
    [where p = "\<lambda>q n. if q = ''down'' then Inl ''timed out'' else Inr \<lparr>error = None, organic = Some []\<rparr>"
       and query = "''down''" and n = 5 and e = "''timed out''"]
    search_outcomes
    [where p = "\<lambda>q n. if q = ''down'' then Inl ''timed out'' else Inr \<lparr>error = None, organic = Some []\<rparr>"
       and query = "''rare''" and n = 5 and sr = "\<lparr>error = None, organic = Some []\<rparr>"
       and topic = "''rare''" and depth = 2 and gets = "\<lambda>i u. Inl ''x''" and parse = "\<lambda>h. []"]
  by simp

theorem no_results_counterexample:
  "organic \<lparr>error = Some ''quota exceeded'', organic = None\<rparr> = None
   \<and> web_search (\<lambda>q n. Inr \<lparr>error = Some ''quota exceeded'', organic = None\<rparr>) ''q'' 5 =
       ''Error performing search: quota exceeded''
   \<and> deep_research (\<lambda>q n. Inr \<lparr>error = Some ''quota exceeded'', organic = None\<rparr>)
       (\<lambda>i u. Inl ''x'') (\<lambda>h. []) ''q'' 2 = ''Error performing search: quota exceeded''
   \<and> deep_research
       (\<lambda>q n. Inr \<lparr>error = Some ''quota exceeded'',
                    organic = Some [\<lparr>title = Some ''A'', link = Some ''a'', snippet = None\<rparr>]\<rparr>)
       (\<lambda>i u. Inl ''x'') (\<lambda>h. []) ''q'' 2 = ''Error performing search: quota exceeded''"
  by (simp add: web_search_def deep_research_def make_search_request_def)

section \<open>The closing summary line\<close>

text \<open>
  C2, at an input where fewer results are available than the depth asks for: with depth 3
  and a provider reply holding one organic result, the report has one detailed section,
  "### Source 1: T", and its closing line reads "This research explored 3 sources on the
  topic 't'. ...": the line states the depth, not the number of sources explored.
\<close>

theorem footer_states_depth:
  "research_report (\<lambda>i u. Inr ''<p>hello</p>'') (\<lambda>h. [Element ''p'' None [] [Text ''hello'']])
     ''t'' 3 [\<lparr>title = Some ''T'', link = Some ''u'', snippet = None\<rparr>] =
     [''# Deep Research: t\<newline>'',
      ''## Search Results Overview\<newline>'',
      ''1. **T**'', ''   URL: u'', ''   Summary: No description\<newline>'',
      ''## Detailed Content Analysis\<newline>'',
      ''### Source 1: T'', ''URL: u\<newline>'',
      ''#### Key Points:\<newline>'', ''- No clear headings found on this page.'', [],
      ''#### Summary of Content:\<newline>'', ''hello...'', ''\<newline>---\<newline>'',
      ''## Research Summary'',
      ''This research explored 3 sources on the topic 't'. To further explore this topic, consider reading the full content of the most relevant sources or refining your search terms.'']"
  by (simp add: research_report_def slice_to_def enumerate_list_def overview_entry_def
      source_lines_def fetch_webpage_content_def startswith_def footer_def dict_get_def
      str_int_small key_points_def heading_tags_def content_summary_def dom_eval)

end
